theory Spec2Isabelle
  imports Complex_Main "HOL-Library.AList"
begin

section \<open>Data model of \<open>pylisp/nodes.py\<close>\<close>

text \<open>
  A token tree, as the external reader hands it over: a leaf is a token string, an inner
  node is a Python list of token trees.
\<close>

datatype tree = Leaf string | Lst "tree list"

fun is_Lst :: "tree \<Rightarrow> bool" where
  "is_Lst (Lst ts) = True"
| "is_Lst (Leaf s) = False"

text \<open>
  A \<open>decimal.Decimal\<close> is a sign (\<open>True\<close> for negative), a coefficient and an exponent.
  The literals of the classifier and the trapping default context never produce NaN or
  an infinity.
\<close>

datatype dec = Dec (dsign: bool) (dcoeff: nat) (dexp: int)

text \<open>
  The operator classes built by \<open>create_unop\<close>, \<open>create_binop\<close> and \<open>create_pyfunc\<close>,
  one tag for each (line 440 to 501).
\<close>

datatype unop = Pos' | Neg'

datatype binop = Eq | Ne | Lt | Gt | Le | Ge | Add | Sub | Mul | Div | Mod | Pow' |
  And | Or | Not' | Xor | Is

datatype pyfunc = Print | Format | Printf | Printfs

text \<open>
  Python values held by an \<open>Atom\<close>, the node classes, and the environments.

  The binding forms, the calls and \<open>Lambda\<close> are always built over a \<open>Name\<close> or a
  \<open>Params\<close> node (line 196, 218, 240, 640, 691), so their first child is that node's
  token. \<open>UfuncClass\<close> is the class \<open>Ufunc\<close> that evaluating a \<open>Lambda\<close> returns
  (parameters, body, captured closure frames); \<open>Ufunc\<close> is an instance of it with its
  constructor arguments. An environment is a plain \<open>dict\<close> or a \<open>ChainMap\<close> over
  mappings; frames are shared mutable objects, so a \<open>dict\<close> is the address of its frame
  in the store. Python does not tell an environment from any other object: \<open>EnvObj\<close>
  is an environment where the code passes one as a constructor argument
  (\<open>Var.__call__\<close> on a name bound to a class), \<open>NotMapping\<close> is a node where the code
  passes one as the environment (\<open>Call.__call__\<close> on a name bound to an instance).
\<close>

datatype pyval =
    PDecimal dec
  | PStr string
  | PBool bool
  | PInt int
  | PNone
  | PNode node
  | PTuple "pyval list"
  | PList "pyval list"
  | PProperty
and node =
    NotImplemented tree
  | Comment "pyval list"
  | Suite "node list"
  | Set' tree node
  | Setg tree node
  | Setc tree node
  | Ret node
  | List' "node list"
  | Params "tree list"
  | Cons' node node
  | Car node
  | Cdr node
  | Cell node node
  | Assert node node
  | Unop unop node
  | Binop binop node node
  | Pyfunc pyfunc "node list"
  | Name tree
  | Var string
  | Atom pyval
  | Nil'
  | True'
  | False'
  | While node node
  | IfElse node node "node option"
  | Call tree "node list"
  | TailCall tree "node list"
  | Lambda "tree list" node
  | UfuncClass "tree list" node "mapping list"
  | Ufunc "tree list" node "mapping list" "node list"
  | Read
  | Parse node
  | Eval node
  | EnvObj mapping
and mapping =
    DictRef nat
  | ChainMap "mapping list"
  | NotMapping node

text \<open>
  The exceptions of the model. \<open>ProgramError\<close> is the class of line 359, with the value
  it carries; the others are Python's own.
\<close>

datatype exn =
    ProgramError pyval
  | KeyError
  | TypeError
  | ValueError
  | AttributeError
  | IndexError
  | InvalidOperation
  | DivisionByZero
  | Overflow
  | StopIteration
  | SyntaxError
  | NotImplementedError
  | OtherError string

text \<open>
  What the code calls outside the repository's \<open>nodes.py\<close> and the model leaves open:
  \<open>ast.literal_eval\<close> on a quoted token with escapes or inner quotes, the native
  operators on operands other than two decimals, the built-in output functions, and the
  reader \<open>parse\<close> of \<open>pylisp/parser.py\<close>. Every theorem holds for each choice of them.
\<close>

record pylib =
  lit_other :: "string \<Rightarrow> exn + pyval"
  binop_other :: "binop \<Rightarrow> pyval \<Rightarrow> pyval \<Rightarrow> exn + pyval"
  unop_other :: "unop \<Rightarrow> pyval \<Rightarrow> exn + pyval"
  pyfunc_native :: "pyfunc \<Rightarrow> pyval list \<Rightarrow> exn + pyval"
  reader :: "pyval \<Rightarrow> exn + node"

section \<open>The tree classifier \<open>Node.parse\<close>\<close>

definition is_digit :: "char \<Rightarrow> bool" where
  "is_digit c = (c \<in> set ''0123456789'')"

definition strip_sign :: "string \<Rightarrow> string" where
  "strip_sign s = (case s of [] \<Rightarrow> [] | c # r \<Rightarrow> if c = CHR ''+'' \<or> c = CHR ''-'' then r else s)"

definition strip_dot :: "string \<Rightarrow> string" where
  "strip_dot s = (case s of [] \<Rightarrow> [] | c # r \<Rightarrow> if c = CHR ''.'' then r else s)"

text \<open>\<open>NUM_RE.fullmatch\<close> for \<open>(?:\+|-)?\d*\.?\d*\<close>, on ASCII digits.\<close>

definition NUM_RE_fullmatch :: "string \<Rightarrow> bool" where
  "NUM_RE_fullmatch s = list_all is_digit (strip_dot (dropWhile is_digit (strip_sign s)))"

definition int_of_digits :: "string \<Rightarrow> nat" where
  "int_of_digits ds = foldl (\<lambda>a c. 10 * a + (of_char c - 48)) 0 ds"

text \<open>
  \<open>Decimal(tree)\<close> on a string that matched \<open>NUM_RE\<close>: the constructor wants a digit
  before or after the point and raises \<open>InvalidOperation\<close> otherwise; it does not round.
\<close>

definition Decimal :: "string \<Rightarrow> exn + dec" where
  "Decimal s =
     (let s1 = strip_sign s;
          ip = takeWhile is_digit s1;
          fp = strip_dot (dropWhile is_digit s1)
      in if ip = [] \<and> fp = [] then Inl InvalidOperation
         else Inr (Dec (s \<noteq> [] \<and> hd s = CHR ''-'') (int_of_digits (ip @ fp)) (- int (length fp))))"

text \<open>
  \<open>literal_eval\<close> on a token that starts and ends with a double quote: a token of two or
  more characters whose inside has no double quote, backslash, line break or NUL is
  that inside; every other token is left to \<open>lit_other\<close>.
\<close>

definition literal_eval :: "pylib \<Rightarrow> string \<Rightarrow> exn + pyval" where
  "literal_eval lib s =
     (let body = butlast (tl s)
      in if 2 \<le> length s \<and>
            list_all (\<lambda>c. c \<notin> {CHR 0x22, CHR 0x5C, CHR 0x0A, CHR 0x0D, CHR 0x00}) body
         then Inr (PStr body) else lit_other lib s)"

text \<open>
  The leaf branch (line 85 to 96). The comparison with \<open>false\<close> stands after
  \<open>return Var(tree)\<close> in the source and is never reached.
\<close>

definition parse_leaf :: "pylib \<Rightarrow> string \<Rightarrow> exn + node" where
  "parse_leaf lib s =
     (if NUM_RE_fullmatch s then map_sum id (\<lambda>d. Atom (PDecimal d)) (Decimal s)
      else if s \<noteq> [] \<and> hd s = CHR 0x22 \<and> last s = CHR 0x22
        then map_sum id Atom (literal_eval lib s)
      else if s = ''nil'' then Inr Nil'
      else if s = ''true'' then Inr True'
      else Inr (Var s))"

definition comparisons :: "string \<Rightarrow> binop option" where
  "comparisons = map_of [(''=='', Eq), (''<>'', Ne), (''<'', Lt), (''>'', Gt), (''<='', Le), (''>='', Ge)]"

definition ops :: "string \<Rightarrow> (nat \<times> (unop + binop)) list option" where
  "ops = map_of
     [(''+'', [(1, Inl Pos'), (2, Inr Add)]),
      (''-'', [(1, Inl Neg'), (2, Inr Sub)]),
      (''*'', [(2, Inr Mul)]), (''/'', [(2, Inr Div)]), (''%'', [(2, Inr Mod)]),
      (''**'', [(2, Inr Pow')]),
      (''and'', [(2, Inr And)]), (''or'', [(2, Inr Or)]), (''not'', [(1, Inr Not')]),
      (''xor'', [(2, Inr Xor)])]"

definition pyfuncs :: "string \<Rightarrow> pyfunc option" where
  "pyfuncs = map_of [(''print'', Print), (''printf'', Printf), (''printfs'', Printfs), (''format'', Format)]"

text \<open>\<open>Params.parse\<close>: \<open>cls(*tree)\<close> spreads a list, and a string into its characters.\<close>

fun Params_parse :: "tree \<Rightarrow> tree list" where
  "Params_parse (Lst ps) = ps"
| "Params_parse (Leaf s) = map (\<lambda>c. Leaf [c]) s"

text \<open>
  Finishing a form whose operands have been classified in order: the node, or the first
  exception, and the token tree as the calls left it.
\<close>

definition mk :: "string \<Rightarrow> tree list \<Rightarrow> (node list \<Rightarrow> exn + node) \<Rightarrow>
    (exn + node list) \<times> tree list \<Rightarrow> (exn + node) \<times> tree" where
  "mk h pre f p =
     ((case fst p of Inl e \<Rightarrow> Inl e | Inr ns \<Rightarrow> f ns), Lst (Leaf h # pre @ snd p))"

definition one :: "(node \<Rightarrow> node) \<Rightarrow> node list \<Rightarrow> exn + node" where
  "one C ns = (case ns of [a] \<Rightarrow> Inr (C a) | _ \<Rightarrow> Inl ValueError)"

definition two :: "(node \<Rightarrow> node \<Rightarrow> node) \<Rightarrow> node list \<Rightarrow> exn + node" where
  "two C ns = (case ns of [a, b] \<Rightarrow> Inr (C a b) | _ \<Rightarrow> Inl ValueError)"


text \<open>
  \<open>Node.parse\<close> (line 82 to 155), with \<open>Suite.parse\<close> and the \<open>parse\<close> class methods
  it dispatches to. The tail-call branches assign \<open>tree[0] = tree[0][1:]\<close> to the
  caller's list, so the function returns the token tree as it stands afterwards next to
  the node or the exception. \<open>parse_list\<close> is the list comprehension
  \<open>[Node.parse(x) for x in ...]\<close>: left to right, stopping at the first exception.
\<close>

fun parse :: "pylib \<Rightarrow> tree \<Rightarrow> (exn + node) \<times> tree"
  and parse_list :: "pylib \<Rightarrow> tree list \<Rightarrow> (exn + node list) \<times> tree list" where
  "parse lib (Leaf s) = (parse_leaf lib s, Leaf s)"
| "parse lib (Lst ts) =
     (if list_all is_Lst ts then
        (case parse_list lib ts of (r, ts') \<Rightarrow> (map_sum id Suite r, Lst ts'))
      else case ts of
        [] \<Rightarrow> (Inl IndexError, Lst ts)
      | Lst hs # rest \<Rightarrow> (Inl TypeError, Lst ts)
      | Leaf h # rest \<Rightarrow>
         (if h = ''set'' \<or> h = ''setg'' \<or> h = ''setc'' then
            (case rest of
               [name, value] \<Rightarrow>
                 mk h [name]
                   (one ((if h = ''set'' then Set' else if h = ''setg'' then Setg else Setc) name))
                   (parse_list lib [value])
             | _ \<Rightarrow> (Inl ValueError, Lst ts))
          else if h = ''ret'' then
            (if length rest = 1 then mk h [] (one Ret) (parse_list lib rest)
             else (Inl ValueError, Lst ts))
          else if h = ''lambda'' then
            (case rest of
               [params, body] \<Rightarrow>
                 mk h [params] (one (Lambda (Params_parse params))) (parse_list lib [body])
             | _ \<Rightarrow> (Inl ValueError, Lst ts))
          else case comparisons h of
            Some b \<Rightarrow>
              (if length rest = 2 then mk h [] (two (Binop b)) (parse_list lib rest)
               else (Inl ValueError, Lst ts))
          | None \<Rightarrow>
          (case ops h of
            Some tbl \<Rightarrow>
              (case map_of tbl (length rest) of
                 None \<Rightarrow> (Inl KeyError, Lst ts)
               | Some (Inl u) \<Rightarrow>
                   (if length rest = 1 then mk h [] (one (Unop u)) (parse_list lib rest)
                    else (Inl ValueError, Lst ts))
               | Some (Inr b) \<Rightarrow>
                   (if length rest = 2 then mk h [] (two (Binop b)) (parse_list lib rest)
                    else (Inl ValueError, Lst ts)))
          | None \<Rightarrow>
          (case pyfuncs h of
            Some f \<Rightarrow> mk h [] (\<lambda>ns. Inr (Pyfunc f ns)) (parse_list lib rest)
          | None \<Rightarrow>
          (if h = ''assert'' then
            (if length rest = 2 then mk h [] (two Assert) (parse_list lib rest)
             else (Inl ValueError, Lst ts))
          else if h = ''list'' then
            mk h [] (\<lambda>ns. if ns = [] then Inl TypeError else Inr (List' ns)) (parse_list lib rest)
          else if h = ''cons'' then
            (if length rest = 2 then mk h [] (two Cons') (parse_list lib rest)
             else (Inl ValueError, Lst ts))
          else if h = ''car'' then
            (if length rest = 1 then mk h [] (one Car) (parse_list lib rest)
             else (Inl ValueError, Lst ts))
          else if h = ''cdr'' then
            (if length rest = 1 then mk h [] (one Cdr) (parse_list lib rest)
             else (Inl ValueError, Lst ts))
          else if h = ''if'' then
            (case rest of
               cond # ifbody # elsebody \<Rightarrow>
                 (if length elsebody \<le> 1 then
                    mk h []
                      (\<lambda>ns. case ns of [c, i] \<Rightarrow> Inr (IfElse c i None)
                         | [c, i, e] \<Rightarrow> Inr (IfElse c i (Some e)) | _ \<Rightarrow> Inl ValueError)
                      (parse_list lib rest)
                  else
                    (case parse_list lib [cond, ifbody] of
                       (r, rest') \<Rightarrow>
                         ((case r of Inl e \<Rightarrow> Inl e | Inr ns \<Rightarrow> Inl TypeError),
                          Lst (Leaf h # rest' @ elsebody))))
             | _ \<Rightarrow> (Inl ValueError, Lst ts))
          else if h = ''while'' then
            (case rest of
               [] \<Rightarrow> (Inl ValueError, Lst ts)
             | cond # body \<Rightarrow>
                 (if length body > 1 then
                    mk h []
                      (\<lambda>ns. case ns of c # bs \<Rightarrow> Inr (While c (Suite bs)) | _ \<Rightarrow> Inl ValueError)
                      (parse_list lib rest)
                  else if body = [] then
                    mk h [] (\<lambda>ns. Inl TypeError) (parse_list lib [cond])
                  else mk h [] (two While) (parse_list lib rest)))
          else if h = ''parse'' then
            (if length rest = 1 then mk h [] (one Parse) (parse_list lib rest)
             else (Inl ValueError, Lst ts))
          else if h = ''quoted'' then
            (case rest of
               [] \<Rightarrow> (Inl IndexError, Lst ts)
             | q # extra \<Rightarrow>
                 (case parse lib q of
                    (r, q') \<Rightarrow> (map_sum id (\<lambda>n. Atom (PNode n)) r, Lst (Leaf h # q' # extra))))
          else if h = ''eval'' then
            (if length rest = 1 then mk h [] (one Eval) (parse_list lib rest)
             else (Inl ValueError, Lst ts))
          else if h = ''read'' then (Inr Read, Lst ts)
          else if rest = [] then
            (if h \<noteq> [] \<and> hd h = CHR ''^'' then (Inr (TailCall (Leaf (tl h)) []), Lst [Leaf (tl h)])
             else (Inr (Call (Leaf h) []), Lst ts))
          else
            (if h \<noteq> [] \<and> hd h = CHR ''^'' then
               mk (tl h) [] (\<lambda>ns. Inr (TailCall (Leaf (tl h)) ns)) (parse_list lib rest)
             else mk h [] (\<lambda>ns. Inr (Call (Leaf h) ns)) (parse_list lib rest)))))))"
| "parse_list lib [] = (Inr [], [])"
| "parse_list lib (t # ts) =
     (case parse lib t of
        (Inl e, t') \<Rightarrow> (Inl e, t' # ts)
      | (Inr n, t') \<Rightarrow>
          (case parse_list lib ts of
             (Inl e, ts') \<Rightarrow> (Inl e, t' # ts')
           | (Inr ns, ts') \<Rightarrow> (Inr (n # ns), t' # ts')))"


section \<open>Decimal arithmetic\<close>

text \<open>
  Python's \<open>decimal\<close> module under its default context: 28 significant digits, rounding
  half to even, exponents from \<open>-999999\<close> to \<open>999999\<close>, with the invalid operation,
  division by zero and overflow signals raising. A result is the exact one, rounded by
  \<open>_fix\<close>.
\<close>

function ndigits :: "nat \<Rightarrow> nat" where
  "ndigits n = (if n < 10 then 1 else Suc (ndigits (n div 10)))"
  by pat_completeness auto
termination
  by (relation "measure id") auto

declare ndigits.simps [simp del]

definition Etiny :: int where
  "Etiny = - 999999 - 28 + 1"

definition Etop :: int where
  "Etop = 999999 - 28 + 1"

definition dec_fix :: "dec \<Rightarrow> exn + dec" where
  "dec_fix d =
     (let s = dsign d; c = dcoeff d; e = dexp d in
      if c = 0 then Inr (Dec s 0 (min (max e Etiny) 999999))
      else
        let exp_min0 = int (ndigits c) + e - 28 in
        if exp_min0 > Etop then Inl Overflow
        else
          let exp_min = max exp_min0 Etiny in
          if e < exp_min then
            let k = nat (exp_min - e);
                q = c div 10 ^ k;
                r = c mod 10 ^ k;
                up = (2 * r > 10 ^ k \<or> (2 * r = 10 ^ k \<and> odd q));
                coeff = (if up then q + 1 else q)
            in if up \<and> ndigits coeff > 28 then
                 (if exp_min + 1 > Etop then Inl Overflow
                  else Inr (Dec s (coeff div 10) (exp_min + 1)))
               else Inr (Dec s coeff exp_min)
          else Inr d)"

text \<open>The coefficient of a decimal as an integer at the exponent \<open>e\<close>, not above its own.\<close>

definition dec_at :: "int \<Rightarrow> dec \<Rightarrow> int" where
  "dec_at e d = (if dsign d then - 1 else 1) * int (dcoeff d) * 10 ^ nat (dexp d - e)"

definition dec_add :: "dec \<Rightarrow> dec \<Rightarrow> exn + dec" where
  "dec_add a b =
     (let e = min (dexp a) (dexp b);
          v = dec_at e a + dec_at e b
      in dec_fix (Dec (if v = 0 then dsign a \<and> dsign b else v < 0) (nat \<bar>v\<bar>) e))"

definition dec_sub :: "dec \<Rightarrow> dec \<Rightarrow> exn + dec" where
  "dec_sub a b = dec_add a (Dec (\<not> dsign b) (dcoeff b) (dexp b))"

definition dec_mul :: "dec \<Rightarrow> dec \<Rightarrow> exn + dec" where
  "dec_mul a b = dec_fix (Dec (dsign a \<noteq> dsign b) (dcoeff a * dcoeff b) (dexp a + dexp b))"

definition dec_neg :: "dec \<Rightarrow> exn + dec" where
  "dec_neg a = dec_fix (Dec (dcoeff a \<noteq> 0 \<and> \<not> dsign a) (dcoeff a) (dexp a))"

definition dec_pos :: "dec \<Rightarrow> exn + dec" where
  "dec_pos a = dec_fix (Dec (dcoeff a \<noteq> 0 \<and> dsign a) (dcoeff a) (dexp a))"

text \<open>
  The loop of \<open>__truediv__\<close> on an exact quotient:
  \<open>while exp < ideal_exp and coeff % 10 == 0: coeff //= 10; exp += 1\<close>.
\<close>

function strip_zeros :: "int \<Rightarrow> nat \<Rightarrow> int \<Rightarrow> nat \<times> int" where
  "strip_zeros ideal coeff e =
     (if e < ideal \<and> coeff mod 10 = 0 then strip_zeros ideal (coeff div 10) (e + 1)
      else (coeff, e))"
  by pat_completeness auto
termination
  by (relation "measure (\<lambda>(ideal, coeff, e). nat (ideal - e))") auto

declare strip_zeros.simps [simp del]

definition dec_truediv :: "dec \<Rightarrow> dec \<Rightarrow> exn + dec" where
  "dec_truediv a b =
     (let sign = (dsign a \<noteq> dsign b) in
      if dcoeff b = 0 then (if dcoeff a = 0 then Inl InvalidOperation else Inl DivisionByZero)
      else if dcoeff a = 0 then dec_fix (Dec sign 0 (dexp a - dexp b))
      else
        let shift = int (ndigits (dcoeff b)) - int (ndigits (dcoeff a)) + 28 + 1;
            e = dexp a - dexp b - shift;
            n = (if shift \<ge> 0 then dcoeff a * 10 ^ nat shift else dcoeff a);
            m = (if shift \<ge> 0 then dcoeff b else dcoeff b * 10 ^ nat (- shift));
            coeff = n div m;
            remainder = n mod m
        in if remainder \<noteq> 0 then
             dec_fix (Dec sign (if coeff mod 5 = 0 then coeff + 1 else coeff) e)
           else
             (case strip_zeros (dexp a - dexp b) coeff e of
                (coeff', e') \<Rightarrow> dec_fix (Dec sign coeff' e')))"

definition dec_cmp :: "(int \<Rightarrow> int \<Rightarrow> bool) \<Rightarrow> dec \<Rightarrow> dec \<Rightarrow> bool" where
  "dec_cmp rel a b = (let e = min (dexp a) (dexp b) in rel (dec_at e a) (dec_at e b))"

text \<open>The number that a decimal stands for: sign, coefficient, and ten to the exponent.\<close>

definition dec_val :: "dec \<Rightarrow> real" where
  "dec_val d = (if dsign d then - 1 else 1) * real (dcoeff d) * 10 powi dexp d"

text \<open>
  The native operation of a unary or binary operator class. On decimals the
  comparisons, \<open>+\<close>, \<open>-\<close>, \<open>*\<close> and \<open>/\<close> are the ones above; \<open>operator.not_\<close> takes one
  argument, so the two-argument call of the class \<open>Not\<close> is a \<open>TypeError\<close>.
\<close>

definition apply_unop :: "pylib \<Rightarrow> unop \<Rightarrow> pyval \<Rightarrow> exn + pyval" where
  "apply_unop lib u x =
     (case x of
        PDecimal a \<Rightarrow> map_sum id PDecimal (case u of Pos' \<Rightarrow> dec_pos a | Neg' \<Rightarrow> dec_neg a)
      | _ \<Rightarrow> unop_other lib u x)"

definition dec_binop :: "binop \<Rightarrow> dec \<Rightarrow> dec \<Rightarrow> (exn + pyval) option" where
  "dec_binop b x y =
     (case b of
        Eq \<Rightarrow> Some (Inr (PBool (dec_cmp (=) x y)))
      | Ne \<Rightarrow> Some (Inr (PBool (dec_cmp (\<noteq>) x y)))
      | Lt \<Rightarrow> Some (Inr (PBool (dec_cmp (<) x y)))
      | Gt \<Rightarrow> Some (Inr (PBool (dec_cmp (>) x y)))
      | Le \<Rightarrow> Some (Inr (PBool (dec_cmp (\<le>) x y)))
      | Ge \<Rightarrow> Some (Inr (PBool (dec_cmp (\<ge>) x y)))
      | Add \<Rightarrow> Some (map_sum id PDecimal (dec_add x y))
      | Sub \<Rightarrow> Some (map_sum id PDecimal (dec_sub x y))
      | Mul \<Rightarrow> Some (map_sum id PDecimal (dec_mul x y))
      | Div \<Rightarrow> Some (map_sum id PDecimal (dec_truediv x y))
      | _ \<Rightarrow> None)"

definition apply_binop :: "pylib \<Rightarrow> binop \<Rightarrow> pyval \<Rightarrow> pyval \<Rightarrow> exn + pyval" where
  "apply_binop lib b x y =
     (if b = Not' then Inl TypeError
      else case (x, y) of
        (PDecimal a, PDecimal c) \<Rightarrow>
          (case dec_binop b a c of Some r \<Rightarrow> r | None \<Rightarrow> binop_other lib b x y)
      | _ \<Rightarrow> binop_other lib b x y)"

section \<open>Environments\<close>

text \<open>
  The store: the frames (a frame is the \<open>dict\<close> at its index, in insertion order), the
  lines still to come on standard input, and the calls of the output functions made so
  far with their unwrapped arguments. The depth counter and the statistics of \<open>debug\<close>
  serve logging only and are left out.
\<close>

record state =
  frames :: "(string \<times> node) list list"
  stdin :: "string list"
  stdout :: "(pyfunc \<times> pyval list) list"

datatype Scoping = DYNAMIC | LEXICAL

definition frame_at :: "state \<Rightarrow> nat \<Rightarrow> (string \<times> node) list" where
  "frame_at st a = (if a < length (frames st) then frames st ! a else [])"

text \<open>
  \<open>env[key]\<close>. A list is not hashable; a \<open>ChainMap\<close> asks its maps in order and passes
  over each \<open>KeyError\<close>; a node is not subscriptable.
\<close>

fun getitem :: "state \<Rightarrow> mapping \<Rightarrow> tree \<Rightarrow> exn + node"
  and getitem_maps :: "state \<Rightarrow> mapping list \<Rightarrow> tree \<Rightarrow> exn + node" where
  "getitem st (DictRef a) key =
     (case key of
        Lst ts \<Rightarrow> Inl TypeError
      | Leaf k \<Rightarrow> (case map_of (frame_at st a) k of None \<Rightarrow> Inl KeyError | Some v \<Rightarrow> Inr v))"
| "getitem st (ChainMap ms) key = getitem_maps st ms key"
| "getitem st (NotMapping n) key = Inl TypeError"
| "getitem_maps st [] key = Inl KeyError"
| "getitem_maps st (m # ms) key =
     (case getitem st m key of Inl KeyError \<Rightarrow> getitem_maps st ms key | r \<Rightarrow> r)"

text \<open>
  \<open>key in env\<close> for a string key. \<open>Node\<close> defines \<open>__iter__\<close>, so the test on a node
  instance runs over its opcodes and finds no string; a class is not iterable.
\<close>

fun contains :: "state \<Rightarrow> mapping \<Rightarrow> string \<Rightarrow> exn + bool"
  and contains_maps :: "state \<Rightarrow> mapping list \<Rightarrow> string \<Rightarrow> exn + bool" where
  "contains st (DictRef a) k = Inr (k \<in> set (map fst (frame_at st a)))"
| "contains st (ChainMap ms) k = contains_maps st ms k"
| "contains st (NotMapping n) k = (case n of UfuncClass ps b cl \<Rightarrow> Inl TypeError | _ \<Rightarrow> Inr False)"
| "contains_maps st [] k = Inr False"
| "contains_maps st (m # ms) k =
     (case contains st m k of Inr False \<Rightarrow> contains_maps st ms k | r \<Rightarrow> r)"

text \<open>\<open>env[key] = value\<close>: a \<open>ChainMap\<close> writes into its first map.\<close>

fun setitem :: "mapping \<Rightarrow> tree \<Rightarrow> node \<Rightarrow> state \<Rightarrow> exn + state" where
  "setitem (DictRef a) key v st =
     (case key of
        Lst ts \<Rightarrow> Inl TypeError
      | Leaf k \<Rightarrow> Inr (st\<lparr>frames := (frames st)[a := AList.update k v (frame_at st a)]\<rparr>))"
| "setitem (ChainMap []) key v st = Inl IndexError"
| "setitem (ChainMap (m # ms)) key v st = setitem m key v st"
| "setitem (NotMapping n) key v st = Inl TypeError"

text \<open>The target of \<open>Setg\<close> (line 206 to 209) and of \<open>Setc\<close> (line 228 to 231).\<close>

definition setg_target :: "mapping \<Rightarrow> exn + mapping" where
  "setg_target env =
     (case env of
        ChainMap ms \<Rightarrow> (if ms = [] then Inl IndexError else Inr (last ms))
      | _ \<Rightarrow> Inr env)"

definition setc_target :: "mapping \<Rightarrow> exn + mapping" where
  "setc_target env =
     (case env of
        ChainMap ms \<Rightarrow> (if length ms < 2 then Inl IndexError else Inr (ms ! 1))
      | _ \<Rightarrow> Inr env)"


text \<open>\<open>dict(zip(params.value, self.args))\<close>: the shorter list decides, a later pair wins.\<close>

fun zip_args :: "(string \<times> node) list \<Rightarrow> tree list \<Rightarrow> node list \<Rightarrow> exn + (string \<times> node) list" where
  "zip_args fr (Leaf k # ps) (v # vs) = zip_args (AList.update k v fr) ps vs"
| "zip_args fr (Lst ts # ps) (v # vs) = Inl TypeError"
| "zip_args fr ps vs = Inr fr"

text \<open>
  The property \<open>value\<close> of the classes that define one (for the binding forms and \<open>Ret\<close>
  it is the child node of the right-hand side), and the truth value of a value.
\<close>

fun tree_val :: "tree \<Rightarrow> pyval" where
  "tree_val (Leaf s) = PStr s"
| "tree_val (Lst ts) = PList (map tree_val ts)"

fun value_of :: "node \<Rightarrow> exn + pyval" where
  "value_of (Atom v) = Inr v"
| "value_of Nil' = Inr PNone"
| "value_of True' = Inr (PBool True)"
| "value_of False' = Inr (PBool False)"
| "value_of (Cell a b) =
     (case value_of a of
        Inl e \<Rightarrow> Inl e
      | Inr x \<Rightarrow> (case value_of b of Inl e \<Rightarrow> Inl e | Inr y \<Rightarrow> Inr (PTuple [x, y])))"
| "value_of (Name t) = Inr (tree_val t)"
| "value_of (Params ps) = Inr (PTuple (map tree_val ps))"
| "value_of (Ufunc ps b cl args) = Inr (PNode (Ufunc ps b cl args))"
| "value_of (UfuncClass ps b cl) = Inr PProperty"
| "value_of (Set' name v) = Inr (PNode v)"
| "value_of (Setg name v) = Inr (PNode v)"
| "value_of (Setc name v) = Inr (PNode v)"
| "value_of (Ret v) = Inr (PNode v)"
| "value_of n = Inl AttributeError"

fun truthy :: "pyval \<Rightarrow> bool" where
  "truthy (PDecimal d) = (dcoeff d \<noteq> 0)"
| "truthy (PStr s) = (s \<noteq> [])"
| "truthy (PBool b) = b"
| "truthy (PInt i) = (i \<noteq> 0)"
| "truthy PNone = False"
| "truthy (PNode n) = True"
| "truthy (PTuple xs) = (xs \<noteq> [])"
| "truthy (PList xs) = (xs \<noteq> [])"
| "truthy PProperty = True"

text \<open>The attributes \<open>car\<close> and \<open>cdr\<close>: properties of \<open>Cell\<close> and of \<open>Cons\<close> only.\<close>

fun car_attr :: "node \<Rightarrow> exn + node" where
  "car_attr (Cell a b) = Inr a"
| "car_attr (Cons' a b) = Inr a"
| "car_attr n = Inl AttributeError"

fun cdr_attr :: "node \<Rightarrow> exn + node" where
  "cdr_attr (Cell a b) = Inr b"
| "cdr_attr (Cons' a b) = Inr b"
| "cdr_attr n = Inl AttributeError"

text \<open>
  \<open>repr\<close> of a name, for the message of an unknown name. The quotes are single, or
  double when the name has a single quote and no double one. A backslash and the
  enclosing quote get a backslash; tab, line feed and carriage return are written
  \<open>\t\<close>, \<open>\n\<close>, \<open>\r\<close>; every other character that is not printable is written \<open>\x\<close>
  and two hexadecimal digits. A character is a code point below 256: the ones that are
  not printable are those below 32, those from 127 to 160, and 173.
\<close>

definition hex_digit :: "nat \<Rightarrow> char" where
  "hex_digit d = ''0123456789abcdef'' ! d"

definition repr_char :: "char \<Rightarrow> char \<Rightarrow> string" where
  "repr_char q c =
     (if c = CHR 0x5C \<or> c = q then [CHR 0x5C, c]
      else if c = CHR 0x09 then [CHR 0x5C, CHR ''t'']
      else if c = CHR 0x0A then [CHR 0x5C, CHR ''n'']
      else if c = CHR 0x0D then [CHR 0x5C, CHR ''r'']
      else if (of_char c :: nat) < 32 \<or> (127 \<le> (of_char c :: nat) \<and> (of_char c :: nat) \<le> 160) \<or>
              (of_char c :: nat) = 173
        then [CHR 0x5C, CHR ''x'', hex_digit (of_char c div 16), hex_digit (of_char c mod 16)]
      else [c])"

definition repr_str :: "string \<Rightarrow> string" where
  "repr_str s =
     (let q = (if CHR 0x27 \<in> set s \<and> CHR 0x22 \<notin> set s then CHR 0x22 else CHR 0x27)
      in [q] @ concat (map (repr_char q) s) @ [q])"

fun repr_tree :: "tree \<Rightarrow> string" and repr_trees :: "tree list \<Rightarrow> string" where
  "repr_tree (Leaf s) = repr_str s"
| "repr_tree (Lst ts) = ''['' @ repr_trees ts @ '']''"
| "repr_trees [] = []"
| "repr_trees [t] = repr_tree t"
| "repr_trees (t # u # ts) = repr_tree t @ '', '' @ repr_trees (u # ts)"

definition unknown_name :: "tree \<Rightarrow> exn" where
  "unknown_name k = ProgramError (PStr (''unknown name '' @ repr_tree k))"

section \<open>The tree-walking evaluator\<close>

text \<open>
  A computation returns a node or raises, and leaves a store; \<open>None\<close> is a computation
  that has not returned within the given depth of nested calls and loop rounds.
\<close>

type_synonym 'a res = "((exn + 'a) \<times> state) option"

definition ret :: "'a \<Rightarrow> state \<Rightarrow> 'a res" where
  "ret x st = Some (Inr x, st)"

definition raise :: "exn \<Rightarrow> state \<Rightarrow> 'a res" where
  "raise e st = Some (Inl e, st)"

definition lift :: "exn + 'a \<Rightarrow> state \<Rightarrow> 'a res" where
  "lift r st = Some (r, st)"

definition bnd :: "'a res \<Rightarrow> ('a \<Rightarrow> state \<Rightarrow> 'b res) \<Rightarrow> 'b res" where
  "bnd m f =
     (case m of
        None \<Rightarrow> None
      | Some (Inl e, st) \<Rightarrow> Some (Inl e, st)
      | Some (Inr x, st) \<Rightarrow> f x st)"

definition sbind :: "exn + 'a \<Rightarrow> ('a \<Rightarrow> exn + 'b) \<Rightarrow> exn + 'b" where
  "sbind r f = (case r of Inl e \<Rightarrow> Inl e | Inr x \<Rightarrow> f x)"

text \<open>\<open>except KeyError as e: raise ProgramError(f'unknown name {...!r}') from e\<close>\<close>

definition catch_key :: "tree \<Rightarrow> 'a res \<Rightarrow> 'a res" where
  "catch_key k r =
     (case r of Some (Inl KeyError, st) \<Rightarrow> Some (Inl (unknown_name k), st) | _ \<Rightarrow> r)"

text \<open>An object passed where the other kind is expected, see the data model.\<close>

fun as_env :: "node \<Rightarrow> mapping" where
  "as_env (EnvObj m) = m"
| "as_env n = NotMapping n"

fun as_obj :: "mapping \<Rightarrow> node" where
  "as_obj (NotMapping n) = n"
| "as_obj m = EnvObj m"

fun values_of :: "node list \<Rightarrow> exn + pyval list" where
  "values_of [] = Inr []"
| "values_of (n # ns) =
     sbind (value_of n) (\<lambda>x. sbind (values_of ns) (\<lambda>xs. Inr (x # xs)))"

definition alloc :: "(string \<times> node) list \<Rightarrow> state \<Rightarrow> state" where
  "alloc fr st = st\<lparr>frames := frames st @ [fr]\<rparr>"

text \<open>
  \<open>eval n lib sc env x st\<close> is the call \<open>x(env)\<close> in the store \<open>st\<close>, with the module's
  \<open>__scoping__\<close> being \<open>sc\<close>: the \<open>__call__\<close> of the node \<open>x\<close>, or the constructor call
  when \<open>x\<close> is the class \<open>Ufunc\<close>. It is \<open>step\<close> over the evaluator \<open>ev\<close> of the nested
  calls, which has one level of depth less. \<open>eval_list\<close> is
  \<open>[arg(env) for arg in args]\<close>, \<open>eval_suite\<close> the loop of \<open>Suite.__call__\<close>,
  \<open>eval_while\<close> that of \<open>While.__call__\<close>, a round of which counts as a level.
  \<open>debug\<close> calls \<open>env.items()\<close> for a \<open>Ufunc\<close> instance, which a node does not have.
\<close>

type_synonym evaluator = "mapping \<Rightarrow> node \<Rightarrow> state \<Rightarrow> node res"

primrec eval_list :: "evaluator \<Rightarrow> mapping \<Rightarrow> node list \<Rightarrow> state \<Rightarrow> node list res" where
  "eval_list ev env [] st = ret [] st"
| "eval_list ev env (x # xs) st =
     bnd (ev env x st) (\<lambda>v st. bnd (eval_list ev env xs st) (\<lambda>vs st. ret (v # vs) st))"

primrec eval_suite :: "evaluator \<Rightarrow> mapping \<Rightarrow> node \<Rightarrow> node list \<Rightarrow> state \<Rightarrow> node res" where
  "eval_suite ev env rv [] st = ret rv st"
| "eval_suite ev env rv (c # cs) st = bnd (ev env c st) (\<lambda>v st. eval_suite ev env v cs st)"

primrec eval_while :: "evaluator \<Rightarrow> nat \<Rightarrow> mapping \<Rightarrow> node \<Rightarrow> node \<Rightarrow> node \<Rightarrow> state \<Rightarrow> node res" where
  "eval_while ev 0 env c b rv st = None"
| "eval_while ev (Suc k) env c b rv st =
     bnd (ev env c st)
       (\<lambda>x st. bnd (lift (value_of x) st)
          (\<lambda>t st. if truthy t then
               bnd (ev env b st) (\<lambda>v st. eval_while ev k env c b v st)
             else ret rv st))"

text \<open>
  \<open>Call.__call__\<close> (line 626 to 632), which \<open>TailCall\<close> inherits: the arguments, then the
  lookup and the call of what is found under the handler for \<open>KeyError\<close>, then the call
  of the resulting node.
\<close>

definition Call_call :: "evaluator \<Rightarrow> mapping \<Rightarrow> tree \<Rightarrow> node list \<Rightarrow> state \<Rightarrow> node res" where
  "Call_call ev env name as st =
     bnd (eval_list ev env as st)
       (\<lambda>xs st.
          bnd (catch_key name
                 (bnd (lift (getitem st env name) st)
                    (\<lambda>f st. case f of
                         UfuncClass ps b cl \<Rightarrow> ret (Ufunc ps b cl xs) st
                       | EnvObj m \<Rightarrow> raise TypeError st
                       | _ \<Rightarrow> (case xs of [x] \<Rightarrow> ev (as_env x) f st
                                | _ \<Rightarrow> raise TypeError st))))
            (\<lambda>nd st. ev env nd st))"

text \<open>\<open>Ufunc.__call__\<close> (line 672 to 678) under \<open>debug\<close>.\<close>

definition Ufunc_call :: "evaluator \<Rightarrow> Scoping \<Rightarrow> mapping \<Rightarrow> tree list \<Rightarrow> node \<Rightarrow>
    mapping list \<Rightarrow> node list \<Rightarrow> state \<Rightarrow> node res" where
  "Ufunc_call ev sc env ps b cl as st =
     (case env of
        NotMapping nd \<Rightarrow> raise AttributeError st
      | _ \<Rightarrow>
        bnd (lift (zip_args [] ps as) st)
          (\<lambda>fr st.
             (case env of
                ChainMap ms \<Rightarrow>
                  (if sc = LEXICAL then
                     (if ms = [] then raise IndexError (alloc fr st)
                      else ev (ChainMap (DictRef (length (frames st)) # cl @ [last ms])) b (alloc fr st))
                   else ev (ChainMap (DictRef (length (frames st)) # cl @ [env])) b (alloc fr st))
              | _ \<Rightarrow> ev (ChainMap (DictRef (length (frames st)) # cl @ [env])) b (alloc fr st))))"

definition step :: "nat \<Rightarrow> evaluator \<Rightarrow> pylib \<Rightarrow> Scoping \<Rightarrow> mapping \<Rightarrow> node \<Rightarrow> state \<Rightarrow> node res" where
  "step n ev lib sc env x st =
     (case x of
        NotImplemented t \<Rightarrow>
          raise NotImplementedError st
      | Comment cs \<Rightarrow>
          ret Nil' st
      | Suite cs \<Rightarrow>
          eval_suite ev env Nil' cs st
      | Set' name v \<Rightarrow>
          bnd (ev env v st)
             (\<lambda>x st. bnd (lift (setitem env name x st) st) (\<lambda>st' _. ret x st'))
      | Setg name v \<Rightarrow>
          bnd (ev env v st)
             (\<lambda>x st. bnd (lift (sbind (setg_target env) (\<lambda>m. setitem m name x st)) st)
                (\<lambda>st' _. ret x st'))
      | Setc name v \<Rightarrow>
          bnd (ev env v st)
             (\<lambda>x st. bnd (lift (sbind (setc_target env) (\<lambda>m. setitem m name x st)) st)
                (\<lambda>st' _. ret x st'))
      | Ret v \<Rightarrow>
          ev env v st
      | List' vs \<Rightarrow>
          bnd (eval_list ev env vs st)
             (\<lambda>xs st. if xs = [] then raise IndexError st else ret (foldr Cell xs Nil') st)
      | Params ps \<Rightarrow>
          ret (Params ps) st
      | Cons' a b \<Rightarrow>
          bnd (ev env a st)
             (\<lambda>x st. bnd (ev env b st) (\<lambda>y st. ret (Cell x y) st))
      | Car c \<Rightarrow>
          bnd (ev env c st) (\<lambda>x st. lift (car_attr x) st)
      | Cdr c \<Rightarrow>
          bnd (ev env c st) (\<lambda>x st. lift (cdr_attr x) st)
      | Cell a b \<Rightarrow>
          ret (Cell a b) st
      | Assert c m \<Rightarrow>
          bnd (ev env c st)
             (\<lambda>x st. bnd (lift (value_of x) st)
                (\<lambda>t st. if truthy t then ret Nil' st
                   else bnd (ev env m st)
                     (\<lambda>y st. bnd (lift (value_of y) st) (\<lambda>msg st. raise (ProgramError msg) st))))
      | Unop u a \<Rightarrow>
          bnd (ev env a st)
             (\<lambda>x st. lift (sbind (value_of x) (\<lambda>v. map_sum id Atom (apply_unop lib u v))) st)
      | Binop b l r \<Rightarrow>
          bnd (ev env l st)
             (\<lambda>x st. bnd (ev env r st)
                (\<lambda>y st. lift (sbind (value_of x) (\<lambda>v. sbind (value_of y)
                   (\<lambda>w. map_sum id Atom (apply_binop lib b v w)))) st))
      | Pyfunc f as \<Rightarrow>
          bnd (eval_list ev env as st)
             (\<lambda>xs st. bnd (lift (sbind (values_of xs) (\<lambda>vs. map_sum id (Pair vs) (pyfunc_native lib f vs))) st)
                (\<lambda>(vs, rv) st.
                   ret (Atom rv) (if f = Format then st else st\<lparr>stdout := stdout st @ [(f, vs)]\<rparr>)))
      | Name t \<Rightarrow>
          ret (Name t) st
      | Var k \<Rightarrow>
          catch_key (Leaf k)
             (bnd (lift (getitem st env (Leaf k)) st) (\<lambda>v st. ev env v st))
      | Atom v \<Rightarrow>
          ret (Atom v) st
      | Nil' \<Rightarrow>
          ret Nil' st
      | True' \<Rightarrow>
          ret True' st
      | False' \<Rightarrow>
          ret False' st
      | While c b \<Rightarrow>
          eval_while ev n env c b Nil' st
      | IfElse c i e \<Rightarrow>
          bnd (ev env c st)
             (\<lambda>x st. bnd (lift (value_of x) st)
                (\<lambda>t st. if truthy t then ev env i st
                   else (case e of None \<Rightarrow> ret Nil' st | Some eb \<Rightarrow> ev env eb st)))
      | Call name as \<Rightarrow> Call_call ev env name as st
      | TailCall name as \<Rightarrow> Call_call ev env name as st
      | Lambda ps b \<Rightarrow>
          ret (UfuncClass ps b (case env of ChainMap ms \<Rightarrow> butlast ms | _ \<Rightarrow> [])) st
      | UfuncClass ps b cl \<Rightarrow>
          ret (Ufunc ps b cl [as_obj env]) st
      | Ufunc ps b cl as \<Rightarrow> Ufunc_call ev sc env ps b cl as st
      | Read \<Rightarrow>
          bnd (lift (contains st env ''--stdin'') st)
             (\<lambda>c st. if c then
                  bnd (lift (getitem st env (Leaf ''--stdin'')) st) (\<lambda>v st. ev env v st)
                else (case stdin st of
                        [] \<Rightarrow> raise StopIteration st
                      | l # ls \<Rightarrow> ret (Atom (PStr l)) (st\<lparr>stdin := ls\<rparr>)))
      | Parse e \<Rightarrow>
          bnd (ev env e st)
             (\<lambda>x st. lift (sbind (value_of x) (\<lambda>code. map_sum id (\<lambda>nd. Atom (PNode nd)) (reader lib code))) st)
      | Eval e \<Rightarrow>
          bnd (ev env e st)
             (\<lambda>x st. bnd (lift (value_of x) st)
                (\<lambda>v st. case v of PNode nd \<Rightarrow> ev env nd st | _ \<Rightarrow> raise TypeError st))
      | EnvObj m \<Rightarrow>
          raise TypeError st)"

primrec eval :: "nat \<Rightarrow> pylib \<Rightarrow> Scoping \<Rightarrow> mapping \<Rightarrow> node \<Rightarrow> state \<Rightarrow> node res" where
  "eval 0 lib sc env x st = None"
| "eval (Suc n) lib sc env x st = step n (eval n lib sc) lib sc env x st"

section \<open>The instruction compiler: jump labels and calls\<close>

text \<open>
  Modelled from the spec: the opcode classes of \<open>pylisp/insts.py\<close>, which \<open>nodes.py\<close>
  imports and only constructs (section 6 of the spec lists them with their operands).
  A native function handed to \<open>CallPyFunc\<close> is named by its tag.
\<close>

datatype native =
    NativeUnop unop
  | NativeBinop binop
  | NativePyfunc pyfunc
  | NativeBuild
  | NativePair
  | NativeFirst
  | NativeSecond
  | NativeCheckAssert
  | NativeParse

datatype opcode =
    Label string
  | PushImm pyval
  | PushVar tree
  | PopVar tree
  | PushGlobalVar tree
  | PopGlobalVar tree
  | PushClosureVar tree
  | PopClosureVar tree
  | JumpIfFalse string
  | JumpAlways string
  | PushFunc tree
  | PushTailFunc tree
  | PopFunc
  | CreateFunc "tree list" node
  | CallPyFunc native nat
  | ReadInput
  | Evaluate
  | Noop
  | Missing node

text \<open>\<open>hex(n)\<close> for a natural number: \<open>0x\<close> and the digits, lower case, no leading zero.\<close>

function hex_digits :: "nat \<Rightarrow> string" where
  "hex_digits n = (if n < 16 then [hex_digit n] else hex_digits (n div 16) @ [hex_digit (n mod 16)])"
  by pat_completeness auto
termination
  by (relation "measure id") auto

declare hex_digits.simps [simp del]

definition hex :: "nat \<Rightarrow> string" where
  "hex n = ''0x'' @ hex_digits n"

text \<open>
  \<open>While.__iter__\<close> (line 580 to 587) and \<open>IfElse.__iter__\<close> (line 610 to 622). The
  first argument is \<open>id(self)\<close>, the address of the node object; \<open>yield from\<close> a child
  is the child's own opcode sequence, given as an argument.
\<close>

definition While_iter :: "nat \<Rightarrow> opcode list \<Rightarrow> opcode list \<Rightarrow> opcode list" where
  "While_iter self_id cond body =
     (let start = ''loop-start-'' @ hex self_id; end = ''loop-end-'' @ hex self_id
      in [Label start] @ cond @ [JumpIfFalse end] @ body @ [JumpAlways start, Label end])"

definition IfElse_iter :: "nat \<Rightarrow> opcode list \<Rightarrow> opcode list \<Rightarrow> opcode list option \<Rightarrow> opcode list" where
  "IfElse_iter self_id cond ifbody elsebody =
     (let ifbody_l = ''ifbody-'' @ hex self_id;
          elsebody_l = ''elsebody-'' @ hex self_id;
          end = ''end-'' @ hex self_id
      in cond @
         (case elsebody of Some e \<Rightarrow> [JumpIfFalse elsebody_l] | None \<Rightarrow> [JumpIfFalse end]) @
         ifbody @
         (case elsebody of Some e \<Rightarrow> [JumpAlways end, Label elsebody_l] @ e | None \<Rightarrow> []) @
         [Label end])"

text \<open>
  \<open>Call.__iter__\<close> (line 641 to 644) and \<open>TailCall.__iter__\<close> (line 647 to 650), over
  the opcode sequences of the arguments.
\<close>

definition Call_iter :: "tree \<Rightarrow> opcode list list \<Rightarrow> opcode list" where
  "Call_iter name args = concat (rev args) @ [PushFunc name]"

definition TailCall_iter :: "tree \<Rightarrow> opcode list list \<Rightarrow> opcode list" where
  "TailCall_iter name args = concat (rev args) @ [PushTailFunc name]"

text \<open>The labels that a sequence of opcodes defines.\<close>

fun labels :: "opcode list \<Rightarrow> string list" where
  "labels [] = []"
| "labels (Label l # os) = l # labels os"
| "labels (opc # os) = labels os"

section \<open>Concrete inputs\<close>

text \<open>
  A library whose open functions all raise, the empty store with one or two frames, and
  a quoted token.
\<close>

definition lib0 :: pylib where
  "lib0 = \<lparr>lit_other = (\<lambda>s. Inl SyntaxError), binop_other = (\<lambda>b x y. Inl TypeError),
     unop_other = (\<lambda>u x. Inl TypeError), pyfunc_native = (\<lambda>f xs. Inl TypeError),
     reader = (\<lambda>v. Inl TypeError)\<rparr>"

definition store :: "(string \<times> node) list list \<Rightarrow> state" where
  "store fs = \<lparr>frames = fs, stdin = [], stdout = []\<rparr>"

definition quoted :: "string \<Rightarrow> string" where
  "quoted s = [CHR 0x22] @ s @ [CHR 0x22]"

definition num :: "nat \<Rightarrow> node" where
  "num k = Atom (PDecimal (Dec False k 0))"

text \<open>The head tokens that \<open>Node.parse\<close> tests for before it takes a list for a call.\<close>

definition reserved :: "string \<Rightarrow> bool" where
  "reserved h =
     (h \<in> set [''set'', ''setg'', ''setc'', ''ret'', ''lambda'', ''assert'', ''list'', ''cons'',
        ''car'', ''cdr'', ''if'', ''while'', ''parse'', ''quoted'', ''eval'', ''read''] \<or>
      comparisons h \<noteq> None \<or> ops h \<noteq> None \<or> pyfuncs h \<noteq> None)"

text \<open>The objects that have the properties \<open>car\<close> and \<open>cdr\<close>.\<close>

fun is_pair :: "node \<Rightarrow> bool" where
  "is_pair (Cell a b) = True"
| "is_pair (Cons' a b) = True"
| "is_pair n = False"

section \<open>Properties\<close>

subsection \<open>Unfolding the evaluator\<close>

declare eval.simps(2) [simp del]

lemma bnd_simps [simp]:
  "bnd None f = None"
  "bnd (Some (Inl e, st)) f = Some (Inl e, st)"
  "bnd (Some (Inr x, st)) f = f x st"
  by (simp_all add: bnd_def)

lemma sbind_simps [simp]:
  "sbind (Inl e) g = Inl e"
  "sbind (Inr x) g = g x"
  by (simp_all add: sbind_def)

lemma lift_simps [simp]:
  "bnd (lift (Inl e) st) f = Some (Inl e, st)"
  "bnd (lift (Inr x) st) f = f x st"
  by (simp_all add: lift_def)

lemma eval_Atom [simp]: "eval (Suc n) lib sc env (Atom v) st = Some (Inr (Atom v), st)"
  by (simp add: eval.simps(2) step_def ret_def)

lemma eval_num [simp]: "eval (Suc n) lib sc env (num k) st = Some (Inr (num k), st)"
  by (simp add: num_def)

lemma eval_Nil [simp]: "eval (Suc n) lib sc env Nil' st = Some (Inr Nil', st)"
  by (simp add: eval.simps(2) step_def ret_def)

lemma eval_Var:
  "eval (Suc n) lib sc env (Var k) st =
     catch_key (Leaf k) (bnd (lift (getitem st env (Leaf k)) st) (\<lambda>v st. eval n lib sc env v st))"
  by (simp add: eval.simps(2) step_def)

lemma eval_Car:
  "eval (Suc n) lib sc env (Car c) st = bnd (eval n lib sc env c st) (\<lambda>x st. lift (car_attr x) st)"
  by (simp add: eval.simps(2) step_def)

lemma eval_Cdr:
  "eval (Suc n) lib sc env (Cdr c) st = bnd (eval n lib sc env c st) (\<lambda>x st. lift (cdr_attr x) st)"
  by (simp add: eval.simps(2) step_def)



lemma eval_Assert:
  "eval (Suc n) lib sc env (Assert c m) st =
     bnd (eval n lib sc env c st)
       (\<lambda>x st. bnd (lift (value_of x) st)
          (\<lambda>t st. if truthy t then ret Nil' st
             else bnd (eval n lib sc env m st)
               (\<lambda>y st. bnd (lift (value_of y) st) (\<lambda>msg st. raise (ProgramError msg) st))))"
  by (simp add: eval.simps(2) step_def)

lemma eval_Lambda:
  "eval (Suc n) lib sc env (Lambda ps b) st =
     Some (Inr (UfuncClass ps b (case env of ChainMap ms \<Rightarrow> butlast ms | _ \<Rightarrow> [])), st)"
  by (simp add: eval.simps(2) step_def ret_def)

lemma eval_Ufunc:
  "eval (Suc n) lib sc env (Ufunc ps b cl as) st = Ufunc_call (eval n lib sc) sc env ps b cl as st"
  by (simp add: eval.simps(2) step_def)

lemma eval_Binop:
  "eval (Suc n) lib sc env (Binop b l r) st =
     bnd (eval n lib sc env l st)
       (\<lambda>x st. bnd (eval n lib sc env r st)
          (\<lambda>y st. lift (sbind (value_of x) (\<lambda>v. sbind (value_of y)
             (\<lambda>w. map_sum id Atom (apply_binop lib b v w)))) st))"
  by (simp add: eval.simps(2) step_def)

lemma eval_Unop:
  "eval (Suc n) lib sc env (Unop u a) st =
     bnd (eval n lib sc env a st)
       (\<lambda>x st. lift (sbind (value_of x) (\<lambda>v. map_sum id Atom (apply_unop lib u v))) st)"
  by (simp add: eval.simps(2) step_def)

lemma eval_Binop_vals:
  assumes "eval n lib sc env l st = Some (Inr (Atom (PDecimal a)), st1)"
    and "eval n lib sc env r st1 = Some (Inr (Atom (PDecimal c)), st2)"
    and "dec_binop b a c = Some (Inr v)"
  shows "eval (Suc n) lib sc env (Binop b l r) st = Some (Inr (Atom v), st2)"
proof -
  from assms(3) have "b \<noteq> Not'"
    by (auto simp: dec_binop_def)
  with assms show ?thesis
    by (simp add: eval_Binop apply_binop_def lift_def)
qed

lemma getitem_store [simp]:
  "frame_at (store fs) a = (if a < length fs then fs ! a else [])"
  "frames (store fs) = fs"
  by (simp_all add: frame_at_def store_def)

subsection \<open>The leaf tokens \<open>nil\<close>, \<open>true\<close> and \<open>false\<close>\<close>

lemma parse_nil_true:
  "parse lib (Leaf ''nil'') = (Inr Nil', Leaf ''nil'') \<and>
   parse lib (Leaf ''true'') = (Inr True', Leaf ''true'')"
  by (simp add: parse_leaf_def NUM_RE_fullmatch_def strip_sign_def strip_dot_def is_digit_def)

text \<open>
  C1. The spec has the classifier return the singleton false node for the leaf \<open>false\<close>.
  The code returns a variable reference to the name \<open>false\<close>: the test for \<open>false\<close>
  stands behind \<open>return Var(tree)\<close>.
\<close>

theorem parse_false_is_Var:
  "parse lib (Leaf ''false'') = (Inr (Var ''false''), Leaf ''false'')"
  by (simp add: parse_leaf_def NUM_RE_fullmatch_def strip_sign_def strip_dot_def is_digit_def)

subsection \<open>The operator table\<close>

text \<open>
  C7. The spec has \<open>(not x)\<close> classified as a unary negation node. The table sends
  \<open>not\<close> with one operand to the class \<open>Not\<close>, which \<open>create_binop\<close> built: its
  \<open>parse\<close> unpacks three elements from a list of two and raises \<open>ValueError\<close>.
\<close>

theorem parse_not_raises:
  "parse lib (Lst [Leaf ''not'', Leaf ''true'']) = (Inl ValueError, Lst [Leaf ''not'', Leaf ''true''])"
  by (simp add: comparisons_def ops_def)

subsection \<open>Unbound names and failed assertions\<close>

text \<open>A reference to a name that no frame of the environment binds raises \<open>ProgramError\<close>.\<close>

lemma Var_unbound:
  "getitem st env (Leaf k) = Inl KeyError \<Longrightarrow>
   eval (Suc n) lib sc env (Var k) st = Some (Inl (unknown_name (Leaf k)), st)"
  by (simp add: eval_Var catch_key_def)

text \<open>
  C2. The spec has \<open>(assert false "boom")\<close> raise \<open>ProgramError\<close> carrying \<open>"boom"\<close>.
  The classifier turns the token \<open>false\<close> into a variable reference, so in an
  environment that does not bind the name \<open>false\<close> the condition itself raises
  \<open>ProgramError\<close> with the message \<open>unknown name 'false'\<close>, and the message operand is
  never evaluated.
\<close>

theorem assert_false_boom:
  "parse lib (Lst [Leaf ''assert'', Leaf ''false'', Leaf (quoted ''boom'')]) =
     (Inr (Assert (Var ''false'') (Atom (PStr ''boom''))),
      Lst [Leaf ''assert'', Leaf ''false'', Leaf (quoted ''boom'')]) \<and>
   eval (Suc (Suc n)) lib sc (DictRef 0) (Assert (Var ''false'') (Atom (PStr ''boom''))) (store [[]]) =
     Some (Inl (ProgramError (PStr (''unknown name '' @ [CHR 0x27] @ ''false'' @ [CHR 0x27]))), store [[]])"
proof
  show "parse lib (Lst [Leaf ''assert'', Leaf ''false'', Leaf (quoted ''boom'')]) =
     (Inr (Assert (Var ''false'') (Atom (PStr ''boom''))),
      Lst [Leaf ''assert'', Leaf ''false'', Leaf (quoted ''boom'')])"
    by (simp add: comparisons_def ops_def pyfuncs_def mk_def two_def parse_leaf_def
        NUM_RE_fullmatch_def strip_sign_def strip_dot_def is_digit_def quoted_def literal_eval_def)
next
  have "getitem (store [[]]) (DictRef 0) (Leaf ''false'') = Inl KeyError"
    by (simp add: store_def frame_at_def)
  then have "eval (Suc n) lib sc (DictRef 0) (Var ''false'') (store [[]]) =
      Some (Inl (unknown_name (Leaf ''false'')), store [[]])"
    by (rule Var_unbound)
  then show "eval (Suc (Suc n)) lib sc (DictRef 0) (Assert (Var ''false'') (Atom (PStr ''boom''))) (store [[]]) =
     Some (Inl (ProgramError (PStr (''unknown name '' @ [CHR 0x27] @ ''false'' @ [CHR 0x27]))), store [[]])"
    by (simp add: eval_Assert unknown_name_def repr_str_def repr_char_def Let_def raise_def)
qed

subsection \<open>\<open>car\<close> and \<open>cdr\<close> of a value that is not a pair\<close>

text \<open>
  C5, as the spec states it, fails: \<open>car\<close> of a number atom and \<open>cdr\<close> of nil raise
  Python's \<open>AttributeError\<close>, which is not \<open>ProgramError\<close>.
\<close>

theorem car_cdr_counterexample:
  "eval 2 lib0 LEXICAL (DictRef 0) (Car (num 1)) (store [[]]) = Some (Inl AttributeError, store [[]]) \<and>
   eval 2 lib0 LEXICAL (DictRef 0) (Cdr Nil') (store [[]]) = Some (Inl AttributeError, store [[]])"
  by (simp add: numeral_2_eq_2 eval_Car eval_Cdr lift_def num_def)

text \<open>
  C5, amended. When the operand of a \<open>car\<close> or \<open>cdr\<close> node evaluates to a value that is
  not a pair, the node raises \<open>AttributeError\<close>, in the store the operand left.
\<close>

theorem car_cdr_non_pair:
  assumes "eval n lib sc env c st = Some (Inr x, st1)" and "\<not> is_pair x"
  shows "eval (Suc n) lib sc env (Car c) st = Some (Inl AttributeError, st1) \<and>
         eval (Suc n) lib sc env (Cdr c) st = Some (Inl AttributeError, st1)"
proof -
  from assms(2) have "car_attr x = Inl AttributeError" "cdr_attr x = Inl AttributeError"
    by (cases x; simp)+
  with assms(1) show ?thesis
    by (simp add: eval_Car eval_Cdr lift_def)
qed

theorem car_cdr_non_pair_witness:
  "eval 1 lib0 LEXICAL (DictRef 0) (Atom (PStr ''a'')) (store [[]]) =
     Some (Inr (Atom (PStr ''a'')), store [[]]) \<and>
   \<not> is_pair (Atom (PStr ''a'')) \<and>
   eval 2 lib0 LEXICAL (DictRef 0) (Car (Atom (PStr ''a''))) (store [[]]) =
     Some (Inl AttributeError, store [[]]) \<and>
   eval 2 lib0 LEXICAL (DictRef 0) (Cdr (Atom (PStr ''a''))) (store [[]]) =
     Some (Inl AttributeError, store [[]])"
proof -
  have a: "eval (Suc 0) lib0 LEXICAL (DictRef 0) (Atom (PStr ''a'')) (store [[]]) =
      Some (Inr (Atom (PStr ''a'')), store [[]])"
    by simp
  have b: "\<not> is_pair (Atom (PStr ''a''))"
    by simp
  show ?thesis
    using car_cdr_non_pair [OF a b] a b by (simp add: numeral_2_eq_2)
qed

subsection \<open>Tail calls under the evaluator\<close>

text \<open>
  C8. In every environment and store, and at every depth, evaluating a tail-call node
  gives the result and the store that evaluating the call node with the same name and
  arguments gives. The opcode sequences of the two agree up to their last opcode, which
  is \<open>PushFunc\<close> for the call and \<open>PushTailFunc\<close> for the tail call.
\<close>

theorem tailcall_as_call:
  "eval n lib sc env (TailCall name as) st = eval n lib sc env (Call name as) st \<and>
   butlast (TailCall_iter name args) = butlast (Call_iter name args) \<and>
   last (Call_iter name args) = PushFunc name \<and>
   last (TailCall_iter name args) = PushTailFunc name"
  by (cases n) (simp_all add: eval.simps(2) step_def Call_iter_def TailCall_iter_def)

subsection \<open>The frames that \<open>setc\<close> and \<open>setg\<close> write\<close>





subsection \<open>Closures\<close>

lemma update_fresh: "k \<notin> fst ` set fr \<Longrightarrow> AList.update k v fr = fr @ [(k, v)]"
  by (induction fr) auto

lemma zip_args_names:
  "distinct ks \<Longrightarrow> set ks \<inter> fst ` set fr = {} \<Longrightarrow> zip_args fr (map Leaf ks) as = Inr (fr @ zip ks as)"
proof (induction ks arbitrary: fr as)
  case Nil
  then show ?case by simp
next
  case (Cons k ks)
  show ?case
  proof (cases as)
    case Nil
    then show ?thesis by simp
  next
    case (Cons a as')
    from Cons.prems have fresh: "k \<notin> fst ` set fr" by auto
    from Cons.prems have d: "distinct ks" and "set ks \<inter> fst ` set (fr @ [(k, a)]) = {}" by auto
    then have "zip_args (fr @ [(k, a)]) (map Leaf ks) as' = Inr ((fr @ [(k, a)]) @ zip ks as')"
      by (rule Cons.IH)
    with fresh Cons show ?thesis by (simp add: update_fresh)
  qed
qed

text \<open>
  C4, as the spec states it, fails twice. Evaluated in the chain of a local and a global
  frame, a lambda captures the local (innermost) frame, not the frames but the
  innermost. Called in lexical mode in such a chain, a closure that captured nothing
  still finds the call site's global binding of \<open>y\<close>: the local frame is chained over the
  call site's last frame, not over nothing.
\<close>

theorem lambda_counterexample:
  "eval 1 lib0 LEXICAL (ChainMap [DictRef 0, DictRef 1]) (Lambda [] (Var ''y'')) (store [[], []]) =
     Some (Inr (UfuncClass [] (Var ''y'') [DictRef 0]), store [[], []]) \<and>
   eval 3 lib0 LEXICAL (ChainMap [DictRef 0, DictRef 1]) (Ufunc [] (Var ''y'') [] []) (store [[], [(''y'', num 7)]]) =
     Some (Inr (num 7), store [[], [(''y'', num 7)], []])"
  by (simp add: eval_nat_numeral eval_Lambda eval_Ufunc Ufunc_call_def alloc_def eval_Var catch_key_def
      frame_at_def store_def)

text \<open>
  C4, amended. Evaluating a lambda in a chained environment captures all its frames but
  the last (the global one), and no frame in an environment that is a plain dict.
  Calling the closure with distinct parameter names allocates a fresh frame that zips
  the names to the arguments, chains it over the captured frames and then, in lexical
  mode in a chained call-site environment, over the call site's last frame, and
  otherwise (dynamic mode, or a call-site environment that is a plain dict) over the
  whole call-site environment, and evaluates the body there.
\<close>

theorem lambda_captures_and_call:
  assumes "distinct ks" and "ms \<noteq> []"
  shows "eval (Suc n) lib sc (ChainMap ms) (Lambda ps b) st = Some (Inr (UfuncClass ps b (butlast ms)), st) \<and>
         eval (Suc n) lib sc (DictRef a) (Lambda ps b) st = Some (Inr (UfuncClass ps b []), st) \<and>
         eval (Suc n) lib sc (ChainMap ms) (Ufunc (map Leaf ks) b cl as) st =
           eval n lib sc (ChainMap (DictRef (length (frames st)) # cl @ [if sc = LEXICAL then last ms else ChainMap ms])) b
             (st\<lparr>frames := frames st @ [zip ks as]\<rparr>) \<and>
         eval (Suc n) lib sc (DictRef a) (Ufunc (map Leaf ks) b cl as) st =
           eval n lib sc (ChainMap (DictRef (length (frames st)) # cl @ [DictRef a])) b
             (st\<lparr>frames := frames st @ [zip ks as]\<rparr>)"
proof -
  from assms(1) have z: "zip_args [] (map Leaf ks) as = Inr (zip ks as)"
    using zip_args_names [of ks "[]" as] by simp
  show ?thesis
    using assms(2) by (simp add: eval_Lambda eval_Ufunc Ufunc_call_def z alloc_def)
qed

theorem lambda_captures_and_call_witness:
  "distinct [''a''] \<and> [DictRef 0, DictRef 1] \<noteq> [] \<and>
   eval 1 lib0 LEXICAL (ChainMap [DictRef 0, DictRef 1]) (Lambda [Leaf ''a''] (Var ''a'')) (store [[], []]) =
     Some (Inr (UfuncClass [Leaf ''a''] (Var ''a'') [DictRef 0]), store [[], []]) \<and>
   eval 3 lib0 LEXICAL (ChainMap [DictRef 0, DictRef 1]) (Ufunc [Leaf ''a''] (Var ''a'') [DictRef 0] [num 4]) (store [[], []]) =
     Some (Inr (num 4), store [[], [], [(''a'', num 4)]])"
proof -
  have d: "distinct [''a'']" by simp
  have m: "[DictRef 0, DictRef 1] \<noteq> []" by simp
  have v: "eval 2 lib0 LEXICAL (ChainMap [DictRef 2, DictRef 0, DictRef 1]) (Var ''a'') (store [[], [], [(''a'', num 4)]]) =
      Some (Inr (num 4), store [[], [], [(''a'', num 4)]])"
    by (simp add: eval_nat_numeral eval_Var catch_key_def)
  show ?thesis
    using lambda_captures_and_call [OF d m, of 0 lib0 LEXICAL "[Leaf ''a'']" "Var ''a''" "store [[], []]"]
      lambda_captures_and_call [OF d m, of 2 lib0 LEXICAL _ "Var ''a''" "store [[], []]" _ "[DictRef 0]" "[num 4]"] v
    by (simp add: eval_nat_numeral store_def)
qed

subsection \<open>Arithmetic on decimals\<close>

lemmas dec_defs = dec_add_def dec_neg_def dec_mul_def dec_truediv_def dec_at_def dec_fix_def dec_cmp_def
  Let_def Etop_def Etiny_def

lemma add_1_2:
  "dec_add (Dec False 1 0) (Dec False 2 0) = Inr (Dec False 3 0)"
  "dec_add (Dec False (Suc 0) 0) (Dec False 2 0) = Inr (Dec False 3 0)"
  by (simp_all add: dec_defs ndigits.simps)

lemma neg_5: "dec_neg (Dec False 5 0) = Inr (Dec True 5 0)"
  by (simp add: dec_defs ndigits.simps)

lemma div_1_3:
  "dec_truediv (Dec False 1 0) (Dec False 3 0) = Inr (Dec False 3333333333333333333333333333 (- 28))"
  "dec_truediv (Dec False (Suc 0) 0) (Dec False 3 0) = Inr (Dec False 3333333333333333333333333333 (- 28))"
  by (simp_all add: dec_defs ndigits.simps)

lemma mul_third_3: "dec_mul (Dec False 3333333333333333333333333333 (- 28)) (Dec False 3 0) =
    Inr (Dec False 9999999999999999999999999999 (- 28))"
  by (simp add: dec_defs ndigits.simps)

lemma parse_num_1_2_3_5:
  "parse_leaf lib ''1'' = Inr (num 1)" "parse_leaf lib ''2'' = Inr (num 2)"
  "parse_leaf lib ''3'' = Inr (num 3)" "parse_leaf lib ''5'' = Inr (num 5)"
  by (simp_all add: parse_leaf_def NUM_RE_fullmatch_def strip_sign_def strip_dot_def is_digit_def
      Decimal_def int_of_digits_def num_def)

lemma dec_at_val: "e \<le> dexp d \<Longrightarrow> real_of_int (dec_at e d) * 10 powi e = dec_val d"
proof -
  assume le: "e \<le> dexp d"
  have "(10::real) ^ nat (dexp d - e) = 10 powi (dexp d - e)"
    using le by (simp add: power_int_nonneg_exp)
  moreover have "(10::real) powi (dexp d - e) * 10 powi e = 10 powi dexp d"
    by (simp flip: power_int_add)
  ultimately show ?thesis
    by (simp add: dec_at_def dec_val_def mult.assoc)
qed

lemma dec_cmp_val:
  "dec_cmp (=) a b = (dec_val a = dec_val b)"
  "dec_cmp (\<noteq>) a b = (dec_val a \<noteq> dec_val b)"
  "dec_cmp (<) a b = (dec_val a < dec_val b)"
  "dec_cmp (>) a b = (dec_val a > dec_val b)"
  "dec_cmp (\<le>) a b = (dec_val a \<le> dec_val b)"
  "dec_cmp (\<ge>) a b = (dec_val a \<ge> dec_val b)"
proof -
  define e where "e = min (dexp a) (dexp b)"
  define p :: real where "p = 10 powi e"
  have p: "0 < p" by (simp add: p_def)
  have va: "dec_val a = real_of_int (dec_at e a) * p" and vb: "dec_val b = real_of_int (dec_at e b) * p"
    by (simp_all add: e_def p_def dec_at_val)
  show "dec_cmp (=) a b = (dec_val a = dec_val b)"
    "dec_cmp (\<noteq>) a b = (dec_val a \<noteq> dec_val b)"
    "dec_cmp (<) a b = (dec_val a < dec_val b)"
    "dec_cmp (>) a b = (dec_val a > dec_val b)"
    "dec_cmp (\<le>) a b = (dec_val a \<le> dec_val b)"
    "dec_cmp (\<ge>) a b = (dec_val a \<ge> dec_val b)"
    using p by (simp_all add: dec_cmp_def va vb flip: e_def)
qed

lemma eval_cmp:
  assumes "dec_binop b x y = Some (Inr (PBool t))"
  shows "eval (Suc (Suc n)) lib sc env (Binop b (Atom (PDecimal x)) (Atom (PDecimal y))) st =
     Some (Inr (Atom (PBool t)), st)"
  using eval_Binop_vals [OF eval_Atom eval_Atom assms] .

lemma third_error:
  "1 / 3 - dec_val (Dec False 3333333333333333333333333333 (- 28)) = 1 / (3 * 10 ^ 28)"
  by (simp add: dec_val_def power_int_minus field_simps)

lemma one_not_nines:
  "dec_binop Eq (Dec False 9999999999999999999999999999 (- 28)) (Dec False 1 0) = Some (Inr (PBool False))"
  by (simp add: dec_binop_def dec_cmp_def dec_at_def)

text \<open>
  C6, as the spec states it, fails: the quotient of \<open>(/ 1 3)\<close> is not exact, and
  arithmetic on it does not give back 1. The program \<open>(== (* (/ 1 3) 3) 1)\<close> evaluates to
  false.
\<close>

theorem third_times_three_counterexample:
  "parse lib0 (Lst [Leaf ''=='', Lst [Leaf ''*'', Lst [Leaf ''/'', Leaf ''1'', Leaf ''3''], Leaf ''3''], Leaf ''1'']) =
     (Inr (Binop Eq (Binop Mul (Binop Div (num 1) (num 3)) (num 3)) (num 1)),
      Lst [Leaf ''=='', Lst [Leaf ''*'', Lst [Leaf ''/'', Leaf ''1'', Leaf ''3''], Leaf ''3''], Leaf ''1'']) \<and>
   eval 4 lib0 LEXICAL (DictRef 0) (Binop Eq (Binop Mul (Binop Div (num 1) (num 3)) (num 3)) (num 1)) (store [[]]) =
     Some (Inr (Atom (PBool False)), store [[]])"
proof
  show "parse lib0 (Lst [Leaf ''=='', Lst [Leaf ''*'', Lst [Leaf ''/'', Leaf ''1'', Leaf ''3''], Leaf ''3''], Leaf ''1'']) =
     (Inr (Binop Eq (Binop Mul (Binop Div (num 1) (num 3)) (num 3)) (num 1)),
      Lst [Leaf ''=='', Lst [Leaf ''*'', Lst [Leaf ''/'', Leaf ''1'', Leaf ''3''], Leaf ''3''], Leaf ''1''])"
    by (simp add: comparisons_def ops_def mk_def two_def parse_num_1_2_3_5)
next
  let ?third = "Dec False 3333333333333333333333333333 (- 28)"
  let ?nines = "Dec False 9999999999999999999999999999 (- 28)"
  have lit: "eval (Suc m) lib0 LEXICAL (DictRef 0) (num j) (store [[]]) =
      Some (Inr (Atom (PDecimal (Dec False j 0))), store [[]])" for m j
    by (simp add: num_def)
  have d3: "dec_binop Div (Dec False 1 0) (Dec False 3 0) = Some (Inr (PDecimal ?third))"
    by (simp add: dec_binop_def div_1_3)
  have d4: "dec_binop Mul ?third (Dec False 3 0) = Some (Inr (PDecimal ?nines))"
    by (simp add: dec_binop_def mul_third_3)
  have e3: "eval (Suc (Suc 0)) lib0 LEXICAL (DictRef 0) (Binop Div (num 1) (num 3)) (store [[]]) =
      Some (Inr (Atom (PDecimal ?third)), store [[]])"
    using eval_Binop_vals [OF lit lit d3] by simp
  have e4: "eval (Suc (Suc (Suc 0))) lib0 LEXICAL (DictRef 0) (Binop Mul (Binop Div (num 1) (num 3)) (num 3)) (store [[]]) =
      Some (Inr (Atom (PDecimal ?nines)), store [[]])"
    using eval_Binop_vals [OF e3 lit d4] by simp
  have "eval (Suc (Suc (Suc (Suc 0)))) lib0 LEXICAL (DictRef 0)
      (Binop Eq (Binop Mul (Binop Div (num 1) (num 3)) (num 3)) (num 1)) (store [[]]) =
      Some (Inr (Atom (PBool False)), store [[]])"
    using eval_Binop_vals [OF e4 lit one_not_nines] by simp
  then show "eval 4 lib0 LEXICAL (DictRef 0) (Binop Eq (Binop Mul (Binop Div (num 1) (num 3)) (num 3)) (num 1)) (store [[]]) =
     Some (Inr (Atom (PBool False)), store [[]])"
    by (simp add: eval_nat_numeral)
qed

text \<open>
  C6, amended. In every environment and store, \<open>(+ 1 2)\<close> is classified as an addition
  and evaluates to the decimal 3, and \<open>(- 5)\<close> is classified as the unary negation and
  evaluates to the decimal -5. \<open>(/ 1 3)\<close> evaluates to the decimal
  0.3333333333333333333333333333, the quotient rounded to the 28 significant digits of
  Python's default decimal context: it is below one third by one part in three times ten
  to the 28, and multiplied by 3 it gives 0.9999999999999999999999999999. Each of the
  six comparisons of two number atoms is the comparison of the two numbers that the
  decimals stand for.
\<close>

theorem decimal_arithmetic:
  "parse lib (Lst [Leaf ''+'', Leaf ''1'', Leaf ''2'']) =
     (Inr (Binop Add (num 1) (num 2)), Lst [Leaf ''+'', Leaf ''1'', Leaf ''2'']) \<and>
   eval (Suc (Suc n)) lib sc env (Binop Add (num 1) (num 2)) st = Some (Inr (num 3), st) \<and>
   parse lib (Lst [Leaf ''-'', Leaf ''5'']) = (Inr (Unop Neg' (num 5)), Lst [Leaf ''-'', Leaf ''5'']) \<and>
   eval (Suc (Suc n)) lib sc env (Unop Neg' (num 5)) st = Some (Inr (Atom (PDecimal (Dec True 5 0))), st) \<and>
   parse lib (Lst [Leaf ''/'', Leaf ''1'', Leaf ''3'']) =
     (Inr (Binop Div (num 1) (num 3)), Lst [Leaf ''/'', Leaf ''1'', Leaf ''3'']) \<and>
   eval (Suc (Suc n)) lib sc env (Binop Div (num 1) (num 3)) st =
     Some (Inr (Atom (PDecimal (Dec False 3333333333333333333333333333 (- 28)))), st) \<and>
   1 / 3 - dec_val (Dec False 3333333333333333333333333333 (- 28)) = 1 / (3 * 10 ^ 28) \<and>
   eval (Suc (Suc (Suc n))) lib sc env (Binop Mul (Binop Div (num 1) (num 3)) (num 3)) st =
     Some (Inr (Atom (PDecimal (Dec False 9999999999999999999999999999 (- 28)))), st) \<and>
   eval (Suc (Suc n)) lib sc env (Binop Eq (Atom (PDecimal a)) (Atom (PDecimal b))) st =
     Some (Inr (Atom (PBool (dec_val a = dec_val b))), st) \<and>
   eval (Suc (Suc n)) lib sc env (Binop Ne (Atom (PDecimal a)) (Atom (PDecimal b))) st =
     Some (Inr (Atom (PBool (dec_val a \<noteq> dec_val b))), st) \<and>
   eval (Suc (Suc n)) lib sc env (Binop Lt (Atom (PDecimal a)) (Atom (PDecimal b))) st =
     Some (Inr (Atom (PBool (dec_val a < dec_val b))), st) \<and>
   eval (Suc (Suc n)) lib sc env (Binop Gt (Atom (PDecimal a)) (Atom (PDecimal b))) st =
     Some (Inr (Atom (PBool (dec_val a > dec_val b))), st) \<and>
   eval (Suc (Suc n)) lib sc env (Binop Le (Atom (PDecimal a)) (Atom (PDecimal b))) st =
     Some (Inr (Atom (PBool (dec_val a \<le> dec_val b))), st) \<and>
   eval (Suc (Suc n)) lib sc env (Binop Ge (Atom (PDecimal a)) (Atom (PDecimal b))) st =
     Some (Inr (Atom (PBool (dec_val a \<ge> dec_val b))), st)"
proof -
  let ?third = "Dec False 3333333333333333333333333333 (- 28)"
  have p1: "parse lib (Lst [Leaf ''+'', Leaf ''1'', Leaf ''2'']) =
     (Inr (Binop Add (num 1) (num 2)), Lst [Leaf ''+'', Leaf ''1'', Leaf ''2''])"
    by (simp add: comparisons_def ops_def mk_def two_def parse_num_1_2_3_5)
  have p2: "parse lib (Lst [Leaf ''-'', Leaf ''5'']) = (Inr (Unop Neg' (num 5)), Lst [Leaf ''-'', Leaf ''5''])"
    by (simp add: comparisons_def ops_def mk_def one_def parse_num_1_2_3_5)
  have p3: "parse lib (Lst [Leaf ''/'', Leaf ''1'', Leaf ''3'']) =
     (Inr (Binop Div (num 1) (num 3)), Lst [Leaf ''/'', Leaf ''1'', Leaf ''3''])"
    by (simp add: comparisons_def ops_def mk_def two_def parse_num_1_2_3_5)
  have lit: "eval (Suc m) lib sc env (num j) st = Some (Inr (Atom (PDecimal (Dec False j 0))), st)" for m j
    by (simp add: num_def)
  have d1: "dec_binop Add (Dec False 1 0) (Dec False 2 0) = Some (Inr (PDecimal (Dec False 3 0)))"
    by (simp add: dec_binop_def add_1_2)
  have d3: "dec_binop Div (Dec False 1 0) (Dec False 3 0) = Some (Inr (PDecimal ?third))"
    by (simp add: dec_binop_def div_1_3)
  have d4: "dec_binop Mul ?third (Dec False 3 0) =
      Some (Inr (PDecimal (Dec False 9999999999999999999999999999 (- 28))))"
    by (simp add: dec_binop_def mul_third_3)
  have e1: "eval (Suc (Suc n)) lib sc env (Binop Add (num 1) (num 2)) st = Some (Inr (num 3), st)"
    using eval_Binop_vals [OF lit lit d1] by (simp add: num_def)
  have e2: "eval (Suc (Suc n)) lib sc env (Unop Neg' (num 5)) st = Some (Inr (Atom (PDecimal (Dec True 5 0))), st)"
    by (simp add: eval_Unop num_def apply_unop_def neg_5 lift_def)
  have e3: "eval (Suc (Suc m)) lib sc env (Binop Div (num 1) (num 3)) st =
     Some (Inr (Atom (PDecimal ?third)), st)" for m
    using eval_Binop_vals [OF lit lit d3] by simp
  have e4: "eval (Suc (Suc (Suc n))) lib sc env (Binop Mul (Binop Div (num 1) (num 3)) (num 3)) st =
     Some (Inr (Atom (PDecimal (Dec False 9999999999999999999999999999 (- 28)))), st)"
    using eval_Binop_vals [OF e3 lit d4] by simp
  have c1: "eval (Suc (Suc n)) lib sc env (Binop Eq (Atom (PDecimal a)) (Atom (PDecimal b))) st =
     Some (Inr (Atom (PBool (dec_val a = dec_val b))), st)"
    by (rule eval_cmp) (simp add: dec_binop_def dec_cmp_val)
  have c2: "eval (Suc (Suc n)) lib sc env (Binop Ne (Atom (PDecimal a)) (Atom (PDecimal b))) st =
     Some (Inr (Atom (PBool (dec_val a \<noteq> dec_val b))), st)"
    by (rule eval_cmp) (simp add: dec_binop_def dec_cmp_val)
  have c3: "eval (Suc (Suc n)) lib sc env (Binop Lt (Atom (PDecimal a)) (Atom (PDecimal b))) st =
     Some (Inr (Atom (PBool (dec_val a < dec_val b))), st)"
    by (rule eval_cmp) (simp add: dec_binop_def dec_cmp_val)
  have c4: "eval (Suc (Suc n)) lib sc env (Binop Gt (Atom (PDecimal a)) (Atom (PDecimal b))) st =
     Some (Inr (Atom (PBool (dec_val a > dec_val b))), st)"
    by (rule eval_cmp) (simp add: dec_binop_def dec_cmp_val)
  have c5: "eval (Suc (Suc n)) lib sc env (Binop Le (Atom (PDecimal a)) (Atom (PDecimal b))) st =
     Some (Inr (Atom (PBool (dec_val a \<le> dec_val b))), st)"
    by (rule eval_cmp) (simp add: dec_binop_def dec_cmp_val)
  have c6: "eval (Suc (Suc n)) lib sc env (Binop Ge (Atom (PDecimal a)) (Atom (PDecimal b))) st =
     Some (Inr (Atom (PBool (dec_val a \<ge> dec_val b))), st)"
    by (rule eval_cmp) (simp add: dec_binop_def dec_cmp_val)
  from p1 p2 p3 e1 e2 e3 [of n] third_error e4 c1 c2 c3 c4 c5 c6 show ?thesis
    by (intro conjI)
qed

subsection \<open>Jump labels\<close>

lemma hex_digit_inj: "d < 16 \<Longrightarrow> e < 16 \<Longrightarrow> hex_digit d = hex_digit e \<Longrightarrow> d = e"
proof -
  assume a: "d < 16" "e < 16" "hex_digit d = hex_digit e"
  have "distinct ''0123456789abcdef''" by simp
  moreover have "d < length ''0123456789abcdef''" "e < length ''0123456789abcdef''" using a by simp_all
  ultimately show "d = e" using a(3) unfolding hex_digit_def by (simp only: nth_eq_iff_index_eq)
qed

lemma hex_digits_last: "hex_digits n \<noteq> [] \<and> last (hex_digits n) = hex_digit (n mod 16)"
  by (subst hex_digits.simps, subst hex_digits.simps) simp

lemma hex_digits_butlast: "butlast (hex_digits n) = (if n < 16 then [] else hex_digits (n div 16))"
  by (subst hex_digits.simps) (simp add: hex_digits_last)

lemma hex_digits_inj: "hex_digits n = hex_digits m \<Longrightarrow> n = m"
proof (induction n arbitrary: m rule: less_induct)
  case (less n)
  have l: "hex_digit (n mod 16) = hex_digit (m mod 16)"
    using less.prems hex_digits_last [of n] hex_digits_last [of m] by simp
  then have md: "n mod 16 = m mod 16"
    by (intro hex_digit_inj) simp_all
  have b: "butlast (hex_digits n) = butlast (hex_digits m)" using less.prems by simp
  show ?case
  proof (cases "n < 16")
    case True
    with b have "m < 16"
      using hex_digits_last [of "m div 16"] by (auto simp: hex_digits_butlast split: if_splits)
    with True md show ?thesis by simp
  next
    case False
    with b have m16: "\<not> m < 16"
      using hex_digits_last [of "n div 16"] by (auto simp: hex_digits_butlast split: if_splits)
    with False b have "hex_digits (n div 16) = hex_digits (m div 16)"
      by (simp add: hex_digits_butlast)
    moreover have "n div 16 < n" using False by simp
    ultimately have "n div 16 = m div 16" by (rule less.IH [rotated])
    with md show ?thesis by (metis div_mult_mod_eq)
  qed
qed

lemma hex_inj [simp]: "(hex i = hex j) = (i = j)"
  by (auto simp: hex_def dest: hex_digits_inj)

text \<open>
  C9, as the spec states it, fails: two while nodes, or two if nodes, with the same
  children at the addresses 1 and 2 compile to different opcode sequences, because
  their labels differ.
\<close>

theorem labels_counterexample:
  "While_iter 1 [] [] \<noteq> While_iter 2 [] [] \<and> IfElse_iter 1 [] [] None \<noteq> IfElse_iter 2 [] [] None"
  by (simp add: While_iter_def IfElse_iter_def Let_def hex_def hex_digits.simps hex_digit_def)

text \<open>
  C9, amended. The labels of a while or if node are built from \<open>hex(id(self))\<close>: two
  nodes with the same children compile to the same opcodes exactly when they have the
  same address, and the labels of a node are \<open>loop-start-\<close> and \<open>loop-end-\<close>, or
  \<open>elsebody-\<close> and \<open>end-\<close>, followed by that address in hexadecimal.
\<close>

theorem labels_from_identity:
  "(While_iter i c b = While_iter j c b) = (i = j) \<and>
   (IfElse_iter i c t e = IfElse_iter j c t e) = (i = j) \<and>
   labels (While_iter i [] []) = [''loop-start-'' @ hex i, ''loop-end-'' @ hex i] \<and>
   labels (IfElse_iter i [] [] None) = [''end-'' @ hex i] \<and>
   labels (IfElse_iter i [] [] (Some [])) = [''elsebody-'' @ hex i, ''end-'' @ hex i]"
  by (simp add: While_iter_def IfElse_iter_def Let_def split: option.split)

subsection \<open>Classifying a tail call twice\<close>

text \<open>
  C10, as stated, fails on a head token with two markers: the list \<open>[^^f]\<close> is left as
  \<open>[^f]\<close>, and classifying that again gives a tail-call node once more.
\<close>

theorem tail_marker_counterexample:
  "parse lib0 (Lst [Leaf ''^^f'']) = (Inr (TailCall (Leaf ''^f'') []), Lst [Leaf ''^f'']) \<and>
   parse lib0 (Lst [Leaf ''^f'']) = (Inr (TailCall (Leaf ''f'') []), Lst [Leaf ''f''])"
  by (simp add: comparisons_def ops_def pyfuncs_def)

text \<open>
  C10, amended. Classifying a list whose head token is the marker \<open>^\<close> followed by \<open>h\<close>
  gives the tail-call node of \<open>h\<close> (or the first exception of its operands) and leaves
  the list with the head token \<open>h\<close>. When \<open>h\<close> is not a reserved head token and does not
  start with the marker, classifying the list as it was left gives the call node of
  \<open>h\<close>, not a tail-call node.
\<close>

theorem tail_marker_stripped:
  assumes "\<not> reserved h" and "h = [] \<or> hd h \<noteq> CHR ''^''"
  shows "parse lib (Lst (Leaf (CHR ''^'' # h) # rest)) =
           (map_sum id (TailCall (Leaf h)) (fst (parse_list lib rest)),
            Lst (Leaf h # snd (parse_list lib rest))) \<and>
         parse lib (Lst (Leaf h # snd (parse_list lib rest))) =
           (map_sum id (Call (Leaf h)) (fst (parse_list lib (snd (parse_list lib rest)))),
            Lst (Leaf h # snd (parse_list lib (snd (parse_list lib rest)))))"
proof
  show "parse lib (Lst (Leaf (CHR ''^'' # h) # rest)) =
           (map_sum id (TailCall (Leaf h)) (fst (parse_list lib rest)),
            Lst (Leaf h # snd (parse_list lib rest)))"
    by (cases rest; cases "fst (parse_list lib rest)")
       (simp_all add: comparisons_def ops_def pyfuncs_def mk_def)
next
  have c: "comparisons h = None" "ops h = None" "pyfuncs h = None"
    using assms(1) by (auto simp: reserved_def)
  have k: "h \<noteq> ''set''" "h \<noteq> ''setg''" "h \<noteq> ''setc''" "h \<noteq> ''ret''" "h \<noteq> ''lambda''"
    "h \<noteq> ''assert''" "h \<noteq> ''list''" "h \<noteq> ''cons''" "h \<noteq> ''car''" "h \<noteq> ''cdr''" "h \<noteq> ''if''"
    "h \<noteq> ''while''" "h \<noteq> ''parse''" "h \<noteq> ''quoted''" "h \<noteq> ''eval''" "h \<noteq> ''read''"
    using assms(1) by (auto simp: reserved_def)
  have "parse lib (Lst (Leaf h # r)) =
           (map_sum id (Call (Leaf h)) (fst (parse_list lib r)), Lst (Leaf h # snd (parse_list lib r)))" for r
    using assms(2) by (cases r; cases "fst (parse_list lib r)") (auto simp: c k mk_def)
  then show "parse lib (Lst (Leaf h # snd (parse_list lib rest))) =
           (map_sum id (Call (Leaf h)) (fst (parse_list lib (snd (parse_list lib rest)))),
            Lst (Leaf h # snd (parse_list lib (snd (parse_list lib rest)))))" .
qed

theorem tail_marker_stripped_witness:
  "\<not> reserved ''f'' \<and>
   parse lib0 (Lst [Leaf ''^f'', Leaf ''1'']) =
     (Inr (TailCall (Leaf ''f'') [num 1]), Lst [Leaf ''f'', Leaf ''1'']) \<and>
   parse lib0 (Lst [Leaf ''f'', Leaf ''1'']) =
     (Inr (Call (Leaf ''f'') [num 1]), Lst [Leaf ''f'', Leaf ''1''])"
proof -
  have r: "\<not> reserved ''f''"
    by (simp add: reserved_def comparisons_def ops_def pyfuncs_def)
  have h: "''f'' = [] \<or> hd ''f'' \<noteq> CHR ''^''"
    by simp
  have p: "parse_list lib0 [Leaf ''1''] = (Inr [num 1], [Leaf ''1''])"
    by (simp add: parse_num_1_2_3_5)
  note t = tail_marker_stripped [OF r h, of lib0 "[Leaf ''1'']",
      unfolded p fst_conv snd_conv map_sum.simps id_apply]
  from r t show ?thesis
    by blast
qed

end
